theory Spec2Isabelle
  imports Main
begin

section \<open>Go values shared by the model\<close>

text \<open>
  Go's \<open>int\<close> is taken as the 64-bit signed integer of the deployment platform and is
  modelled as a HOL \<open>int\<close>; every product the source computes is passed through
  \<open>wrap64\<close>, the two's-complement wrap-around of the machine operation.  A Go call
  returning \<open>(value, error)\<close> is a pair whose second component is \<open>None\<close> for
  \<open>nil\<close>.
\<close>

datatype go_error =
    ErrSyntax
  | ErrRange
  | ErrNoDigits
  | ErrPriceNotCorrect
  | ErrWrongBin
  | ErrTransport

definition MaxInt64 :: int where
  "MaxInt64 = 9223372036854775807"

definition MinInt64 :: int where
  "MinInt64 = - 9223372036854775808"

definition wrap64 :: "int \<Rightarrow> int" where
  "wrap64 x = (x + 9223372036854775808) mod 18446744073709551616 - 9223372036854775808"

text \<open>Go's \<open>/\<close> on integers truncates towards zero; division by zero is a run-time panic
  and is checked by the caller.\<close>

definition go_div :: "int \<Rightarrow> int \<Rightarrow> int" where
  "go_div a b = wrap64 (sgn a * sgn b * (\<bar>a\<bar> div \<bar>b\<bar>))"

section \<open>Price helpers\<close>

subsection \<open>Decimal rendering: \<open>fmt.Sprintf("%d", n)\<close>\<close>

definition digit_char :: "int \<Rightarrow> char" where
  "digit_char d = char_of (48 + d)"

definition is_digit :: "char \<Rightarrow> bool" where
  "is_digit c = (48 \<le> (of_char c :: int) \<and> (of_char c :: int) \<le> 57)"

definition digit_val :: "char \<Rightarrow> int" where
  "digit_val c = of_char c - 48"

function digits_of :: "int \<Rightarrow> string" where
  "digits_of n =
     (if n < 10 then [digit_char n] else digits_of (n div 10) @ [digit_char (n mod 10)])"
  by pat_completeness auto
termination
  by (relation "measure nat") auto

declare digits_of.simps [simp del]

definition itoa :: "int \<Rightarrow> string" where
  "itoa n = (if n < 0 then CHR ''-'' # digits_of (- n) else digits_of n)"

subsection \<open>\<open>helper.FormatPrice\<close> (traits/helper/helper.go)\<close>

text \<open>The \<open>range\<close> loop of \<open>FormatPrice\<close>: \<open>len\<close> is \<open>len(str)\<close>, \<open>i\<close> the index of the
  character at the head of the remaining input.\<close>

fun insert_seps :: "nat \<Rightarrow> nat \<Rightarrow> string \<Rightarrow> string" where
  "insert_seps len i [] = []"
| "insert_seps len i (c # cs) =
     (if i > 0 \<and> (len - i) mod 3 = 0 then [CHR '' ''] else [])
       @ c # insert_seps len (Suc i) cs"

definition FormatPrice :: "int \<Rightarrow> string" where
  "FormatPrice price =
     (let str = itoa price in
      if length str \<le> 3 then str else insert_seps (length str) 0 str)"

subsection \<open>\<open>strconv.Atoi\<close> and \<open>service.ParsePrice\<close>\<close>

fun parse_digits :: "string \<Rightarrow> int \<Rightarrow> int option" where
  "parse_digits [] acc = Some acc"
| "parse_digits (c # cs) acc =
     (if is_digit c then parse_digits cs (acc * 10 + digit_val c) else None)"

text \<open>\<open>strconv.Atoi\<close>: an optional sign followed by decimal digits.  A syntax error
  returns 0, a range error returns the nearest representable value, each with the error.\<close>

definition Atoi :: "string \<Rightarrow> int \<times> go_error option" where
  "Atoi s =
     (let neg = (s \<noteq> [] \<and> hd s = CHR ''-'');
          body = (if s \<noteq> [] \<and> (hd s = CHR ''-'' \<or> hd s = CHR ''+'') then tl s else s)
      in if body = [] then (0, Some ErrSyntax)
         else case parse_digits body 0 of
                None \<Rightarrow> (0, Some ErrSyntax)
              | Some v \<Rightarrow>
                  if neg then (if v > 9223372036854775808 then (MinInt64, Some ErrRange)
                               else (- v, None))
                  else (if v > 9223372036854775807 then (MaxInt64, Some ErrRange)
                        else (v, None)))"

text \<open>\<open>ParsePrice\<close> (unnamed/part_012) deletes every run of characters that are not
  decimal digits, that is every byte that is not an ASCII digit (the bytes of a
  multi-byte rune are all above 127), and hands the rest to \<open>Atoi\<close>.\<close>

definition ParsePrice :: "string \<Rightarrow> int \<times> go_error option" where
  "ParsePrice raw =
     (let digits = filter is_digit raw in
      if digits = [] then (0, Some ErrNoDigits) else Atoi digits)"

section \<open>Data model\<close>

text \<open>The six phase tags of \<open>handler\<close> (unnamed/part_006, lines 26-33).\<close>

definition stateStart :: string where "stateStart = ''start''"
definition stateCount :: string where "stateCount = ''count''"
definition statePaid :: string where "statePaid = ''paid''"
definition stateContact :: string where "stateContact = ''contact''"
definition stateAdminPanel :: string where "stateAdminPanel = ''admin_panel''"
definition stateBroadcast :: string where "stateBroadcast = ''broadcast''"

text \<open>\<open>domain.UserState\<close>, the conversation state stored per user.\<close>

record UserState =
  State :: string
  BroadCastType :: string
  Count :: int
  Contact :: string
  IsPaid :: bool

text \<open>\<open>domain.PdfResult\<close> and the fields of \<open>config.Config\<close> that the handlers read.\<close>

record PdfResult =
  Total :: int
  ActualPrice :: int
  Bin :: string
  Qr :: string

record Config =
  AdminID :: int
  Cost :: int
  cfg_Bin :: string

text \<open>The parts of a Telegram update that the handlers inspect.  \<open>Photo\<close> lists the
  file ids of the photo sizes; \<open>Video\<close>, \<open>VideoNote\<close> and \<open>Audio\<close> carry their file
  id, \<open>Location\<close> its rendered coordinates.  The sender of a message (\<open>Message.From\<close>)
  is taken to be present, as it is for every message a user writes to the bot.\<close>

record Document =
  FileName :: string
  FileID :: string

record ContactInfo =
  ContactFirstName :: string
  PhoneNumber :: string

record Message =
  From_ID :: int
  From_FirstName :: string
  Chat_ID :: int
  Text :: string
  Caption :: string
  Photo :: "string list"
  Video :: "string option"
  Doc :: "Document option"
  VideoNote :: "string option"
  Audio :: "string option"
  Location :: "string option"
  MsgContact :: "ContactInfo option"

record CallbackQuery =
  cq_ID :: string
  cq_From_ID :: int
  Data :: string

record Update =
  Msg :: "Message option"
  Callback :: "CallbackQuery option"

text \<open>Rows of the \<open>loto\<close> and \<open>client\<close> tables, without their time stamps and the path
  of the saved receipt.\<close>

record LotoEntry =
  loto_UserID :: int
  LotoID :: int
  QR :: string

record ClientEntry =
  client_UserID :: int
  client_UserName :: string
  client_Contact :: string

subsection \<open>Outbound messenger calls\<close>

text \<open>The texts the bot sends, named by what they say; the payment instructions carry
  the total they show, the acceptance message of \<open>JustPaid\<close> its ticket list, the
  quantity menu its buttons (label, callback data).\<close>

datatype bot_text =
    TxtOnlyPdf
  | TxtInvalidPdfRetry
  | TxtReceiptAccepted
  | TxtReceiptAcceptedTickets "int list"
  | TxtFileId string
  | TxtChooseCount "(string \<times> string) list list"
  | TxtPayInstructions int
  | TxtShareContact
  | TxtWrongFormat

datatype bot_call =
    BotSendMessage int bot_text
  | BotSendPhotoPromo int
  | BotSendVideoAddress int
  | BotAnswerCallbackQuery string "bot_text option"

subsection \<open>The world a handler runs in\<close>

text \<open>
  \<open>redis\<close> is the State Store keyed by user id, \<open>just\<close>, \<open>loto\<close> and \<open>client\<close> are the
  tables written through \<open>UserRepository\<close>, \<open>sent\<close> is the sequence of calls issued to
  the bot (their own failures are only logged by every handler).
\<close>

record world =
  redis :: "int \<rightharpoonup> UserState"
  just :: "int list"
  loto :: "LotoEntry list"
  client :: "ClientEntry list"
  sent :: "bot_call list"

text \<open>A handler either returns or panics (nil dereference, index out of range,
  division by zero); both leave the effects issued so far.\<close>

datatype outcome = Returned world | Panicked world

fun world_of :: "outcome \<Rightarrow> world" where
  "world_of (Returned w) = w"
| "world_of (Panicked w) = w"

text \<open>
  What the collaborators answer during one handler invocation.  The fields ending in
  \<open>_err\<close> say that the call returns an error; \<open>goc_\<close> are the two State Store calls of
  \<open>getOrCreateUserState\<close>, \<open>get_err\<close>, \<open>save_err\<close> and \<open>delete_err\<close> those of the phase
  handler.  \<open>readPDF\<close> is the result of \<open>service.ReadPDF\<close> on the saved file (\<open>None\<close> for
  an error), \<open>insertLoto_err i\<close> tells whether the \<open>i\<close>-th \<open>InsertLoto\<close> fails and
  \<open>rand_raw i\<close> is the raw value behind the \<open>i\<close>-th \<open>rand.Intn\<close>.
\<close>

record env =
  goc_get_err :: bool
  goc_save_err :: bool
  get_err :: bool
  save_err :: bool
  delete_err :: bool
  existsJust_err :: bool
  insertJust_err :: bool
  getFile_err :: bool
  httpGet_err :: bool
  mkdirAll_err :: bool
  create_err :: bool
  copy_err :: bool
  readPDF :: "string list option"
  insertLoto_err :: "nat \<Rightarrow> bool"
  rand_raw :: "nat \<Rightarrow> int"
  isClientUnique_err :: bool
  insertClient_err :: bool

definition send :: "bot_call \<Rightarrow> world \<Rightarrow> world" where
  "send c w = w\<lparr>sent := sent w @ [c]\<rparr>"

subsection \<open>State Store\<close>

text \<open>
  Modelled from the spec: the State Store behind \<open>repository.RedisRepository\<close>, whose
  code is not part of the sources.  \<open>get(userId)\<close> answers the stored state or absent
  (\<open>nil\<close> with a \<open>nil\<close> error), \<open>put\<close> and \<open>delete\<close> succeed or fail; a failing call
  leaves the store as it was and a failing \<open>get\<close> returns a \<open>nil\<close> state.
\<close>

definition GetUserState :: "bool \<Rightarrow> int \<Rightarrow> world \<Rightarrow> UserState option \<times> bool" where
  "GetUserState fails userID w = (if fails then (None, True) else (redis w userID, False))"

definition SaveUserState :: "bool \<Rightarrow> int \<Rightarrow> UserState \<Rightarrow> world \<Rightarrow> world \<times> bool" where
  "SaveUserState fails userID st w =
     (if fails then (w, True) else (w\<lparr>redis := (redis w)(userID \<mapsto> st)\<rparr>, False))"

definition DeleteUserState :: "bool \<Rightarrow> int \<Rightarrow> world \<Rightarrow> world \<times> bool" where
  "DeleteUserState fails userID w =
     (if fails then (w, True) else (w\<lparr>redis := (redis w)(userID := None)\<rparr>, False))"

subsection \<open>Repository writes (unnamed/part_007)\<close>

text \<open>
  \<open>InsertJust\<close>, \<open>InsertClient\<close> and \<open>InsertLoto\<close> of the repository that the handlers
  of unnamed/part_006 are compiled with are \<open>INSERT OR REPLACE\<close> statements.  Its schema
  declares \<open>id_user\<close> unique in \<open>just\<close> and in \<open>client\<close>, and the pair
  \<open>(id_user, id_loto)\<close> unique in \<open>loto\<close>: a row with the same key is deleted and the
  new row is added at the end of the table.
\<close>

definition InsertJust :: "int \<Rightarrow> int list \<Rightarrow> int list" where
  "InsertJust userID table = filter (\<lambda>r. r \<noteq> userID) table @ [userID]"

definition InsertClient :: "ClientEntry \<Rightarrow> ClientEntry list \<Rightarrow> ClientEntry list" where
  "InsertClient e table =
     filter (\<lambda>r. client_UserID r \<noteq> client_UserID e) table @ [e]"

definition InsertLoto :: "LotoEntry \<Rightarrow> LotoEntry list \<Rightarrow> LotoEntry list" where
  "InsertLoto e table =
     filter (\<lambda>r. \<not> (loto_UserID r = loto_UserID e \<and> LotoID r = LotoID e)) table @ [e]"

subsection \<open>Library functions used by the handlers\<close>

text \<open>The largest capacity \<open>make([]int, 0, cap)\<close> accepts where the heap has 48
  address bits (eight bytes an element, at most \<open>2^48\<close> bytes): above it, and below
  zero, \<open>make\<close> panics with \<open>makeslice: cap out of range\<close>.\<close>

definition maxSliceCap :: int where
  "maxSliceCap = 35184372088832"

text \<open>\<open>rand.Intn(n)\<close> for \<open>n > 0\<close>: some value of the half-open interval from 0 to \<open>n\<close>,
  here the raw value reduced modulo \<open>n\<close>, so that every value of the interval occurs.\<close>

definition Intn :: "int \<Rightarrow> int \<Rightarrow> int" where
  "Intn n raw = raw mod n"

text \<open>\<open>filepath.Ext\<close>: the suffix of the last path element that starts at its last dot.\<close>

definition Ext :: "string \<Rightarrow> string" where
  "Ext path =
     (let last_rev = takeWhile (\<lambda>c. c \<noteq> CHR ''/'') (rev path) in
      if CHR ''.'' \<in> set last_rev
      then CHR ''.'' # rev (takeWhile (\<lambda>c. c \<noteq> CHR ''.'') last_rev)
      else [])"

definition ascii_lower :: "char \<Rightarrow> char" where
  "ascii_lower c =
     (if 65 \<le> (of_char c :: nat) \<and> (of_char c :: nat) \<le> 90
      then char_of ((of_char c :: nat) + 32) else c)"

text \<open>\<open>strings.EqualFold\<close> against an ASCII string none of whose letters has a
  non-ASCII case variant (as \<open>.pdf\<close>): equality up to the case of ASCII letters.\<close>

definition EqualFold :: "string \<Rightarrow> string \<Rightarrow> bool" where
  "EqualFold s t = (map ascii_lower s = map ascii_lower t)"

definition HasPrefix :: "string \<Rightarrow> string \<Rightarrow> bool" where
  "HasPrefix s p = (take (length p) s = p)"

text \<open>\<open>strings.Split(s, sep)\<close> for a one-character separator.\<close>

fun Split :: "string \<Rightarrow> char \<Rightarrow> string list" where
  "Split [] sep = [[]]"
| "Split (c # cs) sep =
     (if c = sep then [] # Split cs sep
      else (c # hd (Split cs sep)) # tl (Split cs sep))"

section \<open>Conversation handlers (unnamed/part_006)\<close>

text \<open>A \<open>domain.UserState\<close> literal that sets \<open>State\<close>, \<open>Count\<close> and \<open>IsPaid\<close> and leaves
  the other fields at their zero values.\<close>

definition UserState_lit :: "string \<Rightarrow> int \<Rightarrow> bool \<Rightarrow> UserState" where
  "UserState_lit st cnt paid =
     \<lparr>State = st, BroadCastType = [], Count = cnt, Contact = [], IsPaid = paid\<rparr>"

definition getOrCreateUserState :: "env \<Rightarrow> int \<Rightarrow> world \<Rightarrow> UserState \<times> world" where
  "getOrCreateUserState e userID w =
     (case GetUserState (goc_get_err e) userID w of
        (state, True) \<Rightarrow> (UserState_lit stateStart 0 False, w)
      | (None, False) \<Rightarrow>
          (UserState_lit stateStart 0 False,
           fst (SaveUserState (goc_save_err e) userID (UserState_lit stateStart 0 False) w))
      | (Some state, False) \<Rightarrow> (state, w))"

definition Validator :: "Config \<Rightarrow> PdfResult \<Rightarrow> go_error option" where
  "Validator cfg pdfData =
     (let mustPrice = wrap64 (Total pdfData * Cost cfg) in
      if ActualPrice pdfData \<noteq> mustPrice then Some ErrPriceNotCorrect
      else if Bin pdfData \<noteq> cfg_Bin cfg then Some ErrWrongBin
      else None)"

text \<open>The ticket loop of \<open>JustPaid\<close> (lines 269-282): \<open>i\<close> is the loop counter, \<open>k\<close> the
  number of iterations left, \<open>table\<close> the \<open>loto\<close> table and \<open>tickets\<close> the slice of
  numbers drawn so far.  The result tells whether the loop ran to its end; a failing
  insert returns from the handler.\<close>

fun loto_loop :: "env \<Rightarrow> int \<Rightarrow> string \<Rightarrow> nat \<Rightarrow> nat \<Rightarrow> LotoEntry list \<Rightarrow> int list
    \<Rightarrow> bool \<times> LotoEntry list \<times> int list" where
  "loto_loop e userID qr i 0 table tickets = (True, table, tickets)"
| "loto_loop e userID qr i (Suc k) table tickets =
     (let lotoId = Intn 90000000 (rand_raw e i) + 10000000 in
      if insertLoto_err e i then (False, table, tickets)
      else loto_loop e userID qr (Suc i) k
             (InsertLoto \<lparr>loto_UserID = userID, LotoID = lotoId, QR = qr\<rparr> table)
             (tickets @ [lotoId]))"

text \<open>\<open>JustPaid\<close> (lines 183-311).  The panics are those of the nil dereferences, of
  \<open>result[2]\<close> and \<open>result[3]\<close>, of the division by a zero cost and of \<open>make\<close> with a
  capacity that is negative or above \<open>maxSliceCap\<close>; an allocation within that limit is
  taken to succeed.\<close>

definition JustPaid :: "Config \<Rightarrow> env \<Rightarrow> Update \<Rightarrow> world \<Rightarrow> outcome" where
  "JustPaid cfg e u w =
     (case Msg u of
        None \<Rightarrow> Panicked w
      | Some m \<Rightarrow>
     (case Doc m of
        None \<Rightarrow> Panicked w
      | Some doc \<Rightarrow>
          if \<not> EqualFold (Ext (FileName doc)) ''.pdf''
          then Returned (send (BotSendMessage (Chat_ID m) TxtOnlyPdf) w)
          else if getFile_err e then Returned w
          else if httpGet_err e then Returned w
          else if mkdirAll_err e then Returned w
          else if create_err e then Returned w
          else if copy_err e then Returned w
          else
     (case readPDF e of
        None \<Rightarrow> Returned w
      | Some result \<Rightarrow>
          if length result \<le> 2 then Panicked w
          else
     (case ParsePrice (result ! 2) of
        (actualPrice, Some err) \<Rightarrow> Returned w
      | (actualPrice, None) \<Rightarrow>
          if Cost cfg = 0 then Panicked w
          else
            let total = go_div actualPrice (Cost cfg);
                totalLoto = wrap64 (total * 3)
            in if totalLoto < 0 \<or> maxSliceCap < totalLoto then Panicked w
               else if length result \<le> 3 then Panicked w
               else
                 let pdfData = \<lparr>Total = total, ActualPrice = actualPrice,
                                Bin = cfg_Bin cfg, Qr = result ! 3\<rparr>
                 in if Validator cfg pdfData \<noteq> None then Returned w
                    else
                      let userID = From_ID m;
                          newState = UserState_lit stateContact total True
                      in
     (case SaveUserState (save_err e) userID newState w of
        (w1, True) \<Rightarrow> Returned w1
      | (w1, False) \<Rightarrow>
     (case loto_loop e userID (result ! 3) 0 (nat totalLoto) (loto w1) [] of
        (False, table, tickets) \<Rightarrow> Returned (w1\<lparr>loto := table\<rparr>)
      | (True, table, tickets) \<Rightarrow>
          Returned (send (BotSendMessage (Chat_ID m) (TxtReceiptAcceptedTickets tickets))
                      (w1\<lparr>loto := table\<rparr>))))))))"

definition StartHandler :: "Update \<Rightarrow> world \<Rightarrow> outcome" where
  "StartHandler u w =
     (case Msg u of
        None \<Rightarrow> Returned w
      | Some m \<Rightarrow> Returned (send (BotSendPhotoPromo (Chat_ID m)) w))"

text \<open>The keyboard of \<open>BuyCosmeticsCallbackHandler\<close>: six rows of five buttons, each with
  its label and its callback data.\<close>

definition count_menu :: "(string \<times> string) list list" where
  "count_menu =
     map (\<lambda>i. map (\<lambda>j. let num = i * 5 + j + 1 in (itoa num, ''count_'' @ itoa num)) [0..4])
       [0..5]"

definition BuyCosmeticsCallbackHandler :: "env \<Rightarrow> Update \<Rightarrow> world \<Rightarrow> outcome" where
  "BuyCosmeticsCallbackHandler e u w =
     (case Callback u of
        None \<Rightarrow> Returned w
      | Some cq \<Rightarrow>
          if Data cq \<noteq> ''buy_cosmetics'' then Returned w
          else
            let userID = cq_From_ID cq;
                newState = UserState_lit stateCount 0 False;
                w1 = fst (SaveUserState (save_err e) userID newState w);
                w2 = send (BotAnswerCallbackQuery (cq_ID cq) None) w1
            in Returned (send (BotSendMessage userID (TxtChooseCount count_menu)) w2))"

definition CountHandler :: "Config \<Rightarrow> env \<Rightarrow> Update \<Rightarrow> world \<Rightarrow> outcome" where
  "CountHandler cfg e u w =
     (case Callback u of
        None \<Rightarrow> Returned w
      | Some cq \<Rightarrow>
          if \<not> HasPrefix (Data cq) ''count_'' then Returned w
          else
            let w1 = send (BotAnswerCallbackQuery (cq_ID cq) None) w;
                choice = Split (Data cq) CHR ''_''
            in if length choice \<noteq> 2
               then Returned (send (BotAnswerCallbackQuery (cq_ID cq) (Some TxtWrongFormat)) w1)
               else
     (case Atoi (choice ! 1) of
        (userCount, Some err) \<Rightarrow> Returned w1
      | (userCount, None) \<Rightarrow>
          let totalSum = wrap64 (userCount * Cost cfg);
              userID = cq_From_ID cq;
              newState = UserState_lit statePaid userCount False;
              w2 = fst (SaveUserState (save_err e) userID newState w1)
          in Returned (send (BotSendMessage userID (TxtPayInstructions totalSum)) w2)))"

text \<open>\<open>PaidHandler\<close> (lines 543-659).  A failed \<open>ReadPDF\<close> is only logged and leaves
  \<open>result\<close> nil, so that \<open>result[3]\<close> panics; a failed or empty read of the state leaves
  \<open>state\<close> nil, so that \<open>state.Count\<close> panics.  Neither a parse error nor a validation
  error ends the handler.\<close>

definition PaidHandler :: "Config \<Rightarrow> env \<Rightarrow> Update \<Rightarrow> world \<Rightarrow> outcome" where
  "PaidHandler cfg e u w =
     (case Msg u of
        None \<Rightarrow> Returned w
      | Some m \<Rightarrow>
     (case Doc m of
        None \<Rightarrow> Returned w
      | Some doc \<Rightarrow>
          if \<not> EqualFold (Ext (FileName doc)) ''.pdf''
          then Returned (send (BotSendMessage (Chat_ID m) TxtOnlyPdf) w)
          else if getFile_err e then Returned w
          else if httpGet_err e then Returned w
          else if mkdirAll_err e then Returned w
          else if create_err e then Returned w
          else if copy_err e then Returned w
          else
            let userID = From_ID m;
                result = (case readPDF e of None \<Rightarrow> [] | Some lines \<Rightarrow> lines);
                state = fst (GetUserState (get_err e) userID w)
            in if length result \<le> 3 then Panicked w
               else
     (case ParsePrice (result ! 3) of (priceInt, errPdf) \<Rightarrow>
     (case state of
        None \<Rightarrow> Panicked w
      | Some st \<Rightarrow>
          let pdf = \<lparr>Total = Count st, ActualPrice = priceInt,
                     Bin = cfg_Bin cfg, Qr = result ! 3\<rparr>;
              w1 = (if errPdf \<noteq> None
                    then send (BotSendMessage userID TxtInvalidPdfRetry) w else w);
              w2 = (if Validator cfg pdf \<noteq> None
                    then send (BotSendMessage userID TxtInvalidPdfRetry) w1 else w1);
              st' = st\<lparr>IsPaid := True, State := stateContact\<rparr>;
              w3 = fst (SaveUserState (save_err e) userID st' w2)
          in Returned (send (BotSendMessage (Chat_ID m) TxtReceiptAccepted) w3)))))"

definition ShareContactCallbackHandler :: "env \<Rightarrow> Update \<Rightarrow> world \<Rightarrow> outcome" where
  "ShareContactCallbackHandler e u w =
     (case Msg u of
        None \<Rightarrow> Returned w
      | Some m \<Rightarrow>
          let userId = From_ID m in
     (case MsgContact m of
        None \<Rightarrow> Returned (send (BotSendMessage userId TxtShareContact) w)
      | Some contact \<Rightarrow>
          let state = (case GetUserState (get_err e) userId w of
                         (s, True) \<Rightarrow> Some (UserState_lit stateContact 1 True)
                       | (s, False) \<Rightarrow> s);
              state' = map_option (\<lambda>s. s\<lparr>Contact := PhoneNumber contact\<rparr>) state;
              w1 = (case state' of
                      None \<Rightarrow> w
                    | Some s \<Rightarrow> fst (SaveUserState (save_err e) userId s w))
          in if isClientUnique_err e then Returned w1
             else
     (case state' of
        None \<Rightarrow> Panicked w1
      | Some s \<Rightarrow>
          let entry = \<lparr>client_UserID = userId, client_UserName = From_FirstName m,
                       client_Contact = Contact s\<rparr>;
              w2 = (if insertClient_err e then w1
                    else w1\<lparr>client := InsertClient entry (client w1)\<rparr>);
              w3 = send (BotSendVideoAddress (Chat_ID m)) w2
          in Returned (fst (DeleteUserState (delete_err e) userId w3)))))"

text \<open>The phase switch of \<open>DefaultHandler\<close> (lines 370-385 and again 389-404).
  \<open>AdminHandler\<close> and \<open>SendMessage\<close> of this variant are not among the sources and are
  parameters.\<close>

definition phase_switch ::
  "Config \<Rightarrow> env \<Rightarrow> (Update \<Rightarrow> world \<Rightarrow> outcome) \<Rightarrow> (Update \<Rightarrow> world \<Rightarrow> outcome)
     \<Rightarrow> string \<Rightarrow> Update \<Rightarrow> world \<Rightarrow> outcome" where
  "phase_switch cfg e AdminHandler SendMessage st u w =
     (if st = stateStart then StartHandler u w
      else if st = stateCount then CountHandler cfg e u w
      else if st = statePaid then PaidHandler cfg e u w
      else if st = stateContact then ShareContactCallbackHandler e u w
      else if st = stateAdminPanel then AdminHandler u w
      else if st = stateBroadcast then SendMessage u w
      else StartHandler u w)"

text \<open>Lines 325-339: a user not yet in \<open>just\<close> is inserted.\<close>

definition register_user :: "env \<Rightarrow> int \<Rightarrow> world \<Rightarrow> world" where
  "register_user e userID w =
     (if existsJust_err e then w
      else if userID \<in> set (just w) then w
      else if insertJust_err e then w
      else w\<lparr>just := InsertJust userID (just w)\<rparr>)"

text \<open>Lines 341-358: the file id of a photo or video sent by the admin is echoed.\<close>

definition admin_echo :: "Config \<Rightarrow> Message \<Rightarrow> world \<Rightarrow> world" where
  "admin_echo cfg m w =
     (if From_ID m = AdminID cfg then
        let fileId = (if Photo m \<noteq> [] then last (Photo m)
                      else case Video m of Some v \<Rightarrow> v | None \<Rightarrow> [])
        in if fileId \<noteq> [] then send (BotSendMessage (AdminID cfg) (TxtFileId fileId)) w
           else w
      else w)"

definition DefaultHandler ::
  "Config \<Rightarrow> env \<Rightarrow> (Update \<Rightarrow> world \<Rightarrow> outcome) \<Rightarrow> (Update \<Rightarrow> world \<Rightarrow> outcome)
     \<Rightarrow> Update \<Rightarrow> world \<Rightarrow> outcome" where
  "DefaultHandler cfg e AdminHandler SendMessage u w =
     (case Msg u of
        None \<Rightarrow> Returned w
      | Some m \<Rightarrow>
          let userID = From_ID m;
              w1 = register_user e userID w;
              w2 = admin_echo cfg m w1
          in
     (case getOrCreateUserState e userID w2 of (userState, w3) \<Rightarrow>
          if Doc m \<noteq> None \<and> State userState \<noteq> statePaid \<and> State userState \<noteq> stateContact
          then JustPaid cfg e u w3
          else if Callback u \<noteq> None
          then phase_switch cfg e AdminHandler SendMessage (State userState) u w3
          else phase_switch cfg e AdminHandler SendMessage (State userState) u w3))"

section \<open>Broadcast engine (internal/handler/admin-handler.go)\<close>

text \<open>The calls \<open>sendToUser\<close> makes on the bot: recipient, file id, caption.\<close>

datatype transport_call =
    CallSendMessage int string
  | CallSendPhoto int string string
  | CallSendVideo int string string
  | CallSendDocument int string string
  | CallSendVideoNote int string
  | CallSendAudio int string

text \<open>\<open>sendToUser\<close> returns the error of the one call it makes, and \<open>nil\<close> without any
  call for a message type it does not know.  \<open>transport c\<close> tells whether call \<open>c\<close>
  fails.\<close>

definition sendToUser ::
  "(transport_call \<Rightarrow> bool) \<Rightarrow> int \<Rightarrow> string \<Rightarrow> string \<Rightarrow> string
     \<Rightarrow> go_error option \<times> transport_call list" where
  "sendToUser transport chatID msgType fileID caption =
     (let call = (\<lambda>c. (if transport c then Some ErrTransport else None, [c])) in
      if msgType = ''text'' then call (CallSendMessage chatID caption)
      else if msgType = ''photo'' then call (CallSendPhoto chatID fileID caption)
      else if msgType = ''video'' then call (CallSendVideo chatID fileID caption)
      else if msgType = ''document'' then call (CallSendDocument chatID fileID caption)
      else if msgType = ''video_note'' then call (CallSendVideoNote chatID fileID)
      else if msgType = ''audio'' then call (CallSendAudio chatID fileID)
      else (None, []))"

definition parseMessage :: "Message \<Rightarrow> string \<times> string \<times> string" where
  "parseMessage msg =
     (if Text msg \<noteq> [] then (''text'', [], Text msg)
      else if Photo msg \<noteq> [] then (''photo'', last (Photo msg), Caption msg)
      else case Video msg of Some v \<Rightarrow> (''video'', v, Caption msg) | None \<Rightarrow>
      (case Doc msg of Some d \<Rightarrow> (''document'', FileID d, Caption msg) | None \<Rightarrow>
      (case VideoNote msg of Some v \<Rightarrow> (''video_note'', v, Caption msg) | None \<Rightarrow>
      (case Audio msg of Some a \<Rightarrow> (''audio'', a, Caption msg) | None \<Rightarrow>
      (case Location msg of Some l \<Rightarrow> (''location'', [], l) | None \<Rightarrow>
      (case MsgContact msg of
         Some c \<Rightarrow> (''contact'', [], ContactFirstName c @ '': '' @ PhoneNumber c)
       | None \<Rightarrow> ([], [], [])))))))"

text \<open>The counters of one broadcast and the calls made for it.\<close>

record tally =
  successCount :: int
  failedCount :: int
  calls :: "transport_call list"

text \<open>
  One task of the \<open>errgroup\<close> loop of \<open>SendMessage\<close> (lines 205-222): it waits for the
  rate limiter, which fails only once the context is cancelled, then sends and adds one
  to exactly one counter with an atomic add.  Atomic additions commute, so the final
  counters do not depend on how the tasks interleave, and the tasks are run here in
  the order of the audience.  \<open>wait_err i\<close> tells whether the wait of task \<open>i\<close> fails.
\<close>

definition broadcast_task ::
  "(transport_call \<Rightarrow> bool) \<Rightarrow> bool \<Rightarrow> string \<times> string \<times> string \<Rightarrow> int \<Rightarrow> tally \<Rightarrow> tally" where
  "broadcast_task transport wait_fails parsed usrId t =
     (case parsed of (msgType, fileId, caption) \<Rightarrow>
        if wait_fails then t
        else case sendToUser transport usrId msgType fileId caption of
               (Some err, cs) \<Rightarrow> t\<lparr>failedCount := failedCount t + 1, calls := calls t @ cs\<rparr>
             | (None, cs) \<Rightarrow> t\<lparr>successCount := successCount t + 1, calls := calls t @ cs\<rparr>)"

fun broadcast_tasks ::
  "(transport_call \<Rightarrow> bool) \<Rightarrow> (nat \<Rightarrow> bool) \<Rightarrow> string \<times> string \<times> string \<Rightarrow> nat
     \<Rightarrow> int list \<Rightarrow> tally \<Rightarrow> tally" where
  "broadcast_tasks transport wait_err parsed i [] t = t"
| "broadcast_tasks transport wait_err parsed i (userId # rest) t =
     broadcast_tasks transport wait_err parsed (Suc i) rest
       (broadcast_task transport (wait_err i) parsed userId t)"

text \<open>The part of \<open>SendMessage\<close> that follows the label switch and the state check
  (lines 146-250): the audience is loaded (\<open>None\<close> for an error), an empty audience and
  a failed status message end the handler without a job, otherwise the job runs and
  its final counters are reported.\<close>

datatype broadcast_report =
    LoadFailed
  | NoRecipients
  | StatusFailed
  | Completed tally

definition SendMessage_broadcast ::
  "(transport_call \<Rightarrow> bool) \<Rightarrow> (nat \<Rightarrow> bool) \<Rightarrow> bool \<Rightarrow> int list option \<Rightarrow> Message
     \<Rightarrow> broadcast_report" where
  "SendMessage_broadcast transport wait_err status_err loaded msg =
     (let parsed = parseMessage msg in
      case loaded of
        None \<Rightarrow> LoadFailed
      | Some userIds \<Rightarrow>
          if length userIds = 0 then NoRecipients
          else if status_err then StatusFailed
          else Completed (broadcast_tasks transport wait_err parsed 0 userIds
                            \<lparr>successCount = 0, failedCount = 0, calls = []\<rparr>))"

section \<open>Sample inputs\<close>

text \<open>Concrete collaborators and events on which the handlers are evaluated below.\<close>

definition all_sent :: "transport_call \<Rightarrow> bool" where
  "all_sent c = False"

definition fails_for :: "int \<Rightarrow> transport_call \<Rightarrow> bool" where
  "fails_for uid c = (c = CallSendMessage uid ''hello'')"

definition no_cancel :: "nat \<Rightarrow> bool" where
  "no_cancel i = False"

definition empty_msg :: Message where
  "empty_msg =
     \<lparr>From_ID = 800703982, From_FirstName = ''admin'', Chat_ID = 800703982, Text = [],
      Caption = [], Photo = [], Video = None, Doc = None, VideoNote = None, Audio = None,
      Location = None, MsgContact = None\<rparr>"

definition text_msg :: Message where
  "text_msg = empty_msg\<lparr>Text := ''hello''\<rparr>"

definition location_msg :: Message where
  "location_msg = empty_msg\<lparr>Location := Some ''43.238949,76.889709''\<rparr>"

fun report_tally :: "broadcast_report \<Rightarrow> tally" where
  "report_tally (Completed t) = t"
| "report_tally r = \<lparr>successCount = 0, failedCount = 0, calls = []\<rparr>"

definition cfg0 :: Config where
  "cfg0 = \<lparr>AdminID = 800703982, Cost = 18900, cfg_Bin = ''000000000000''\<rparr>"

definition no_insert_failure :: "nat \<Rightarrow> bool" where
  "no_insert_failure i = False"

definition same_draw :: "nat \<Rightarrow> int" where
  "same_draw i = 7"

definition spread_draw :: "nat \<Rightarrow> int" where
  "spread_draw i = 89999999 - int i"

text \<open>Every collaborator succeeds; the saved file reads as a receipt whose third line
  is the amount paid and whose fourth line is \<open>line4\<close>.\<close>

definition env_ok :: "string \<Rightarrow> string \<Rightarrow> (nat \<Rightarrow> int) \<Rightarrow> env" where
  "env_ok line3 line4 draws =
     \<lparr>goc_get_err = False, goc_save_err = False, get_err = False, save_err = False,
      delete_err = False, existsJust_err = False, insertJust_err = False,
      getFile_err = False, httpGet_err = False, mkdirAll_err = False, create_err = False,
      copy_err = False, readPDF = Some [''Kaspi'', ''Receipt'', line3, line4],
      insertLoto_err = no_insert_failure, rand_raw = draws,
      isClientUnique_err = False, insertClient_err = False\<rparr>"

definition buyer_msg :: Message where
  "buyer_msg = empty_msg\<lparr>From_ID := 42, From_FirstName := ''buyer'', Chat_ID := 42\<rparr>"

definition receipt_update :: Update where
  "receipt_update =
     \<lparr>Msg = Some (buyer_msg\<lparr>Doc := Some \<lparr>FileName = ''receipt.pdf'', FileID = ''f1''\<rparr>\<rparr>),
      Callback = None\<rparr>"


definition button_update :: "string \<Rightarrow> Update" where
  "button_update d = \<lparr>Msg = None, Callback = Some \<lparr>cq_ID = ''q1'', cq_From_ID = 42, Data = d\<rparr>\<rparr>"

definition world0 :: world where
  "world0 = \<lparr>redis = Map.empty, just = [42], loto = [], client = [], sent = []\<rparr>"

definition world_in :: "UserState \<Rightarrow> world" where
  "world_in st = world0\<lparr>redis := [42 \<mapsto> st]\<rparr>"

text \<open>A stand-in for the two admin handlers, which the sample events never reach.\<close>

definition no_admin :: "Update \<Rightarrow> world \<Rightarrow> outcome" where
  "no_admin u w = Returned w"


section \<open>Properties of the price helpers\<close>

lemma is_digit_digit_char: "0 \<le> d \<Longrightarrow> d < 10 \<Longrightarrow> is_digit (digit_char d)"
  by (simp add: is_digit_def digit_char_def)

lemma digit_val_digit_char: "0 \<le> d \<Longrightarrow> d < 10 \<Longrightarrow> digit_val (digit_char d) = d"
  by (simp add: digit_val_def digit_char_def)

lemma digits_of_all_digits: "0 \<le> n \<Longrightarrow> \<forall>c \<in> set (digits_of n). is_digit c"
proof (induction n rule: digits_of.induct)
  case (1 n)
  show ?case
  proof (cases "n < 10")
    case True
    with 1 show ?thesis by (subst digits_of.simps) (simp add: is_digit_digit_char)
  next
    case False
    with 1 show ?thesis by (subst digits_of.simps) (simp add: is_digit_digit_char)
  qed
qed

lemma digits_of_nonempty: "digits_of n \<noteq> []"
  by (subst digits_of.simps) simp

lemma not_digit_space: "\<not> is_digit CHR '' ''"
  by (simp add: is_digit_def)

lemma filter_insert_seps: "filter is_digit (insert_seps len i s) = filter is_digit s"
  by (induction s arbitrary: i) (simp_all add: not_digit_space)

lemma parse_digits_append:
  "parse_digits (xs @ ys) acc =
     (case parse_digits xs acc of None \<Rightarrow> None | Some a \<Rightarrow> parse_digits ys a)"
  by (induction xs arbitrary: acc) simp_all

lemma parse_digits_digits_of: "0 \<le> n \<Longrightarrow> parse_digits (digits_of n) 0 = Some n"
proof (induction n rule: digits_of.induct)
  case (1 n)
  show ?case
  proof (cases "n < 10")
    case True
    with 1 show ?thesis
      by (subst digits_of.simps) (simp add: is_digit_digit_char digit_val_digit_char)
  next
    case False
    with 1 have "parse_digits (digits_of (n div 10)) 0 = Some (n div 10)" by simp
    with False 1(2) show ?thesis
      by (subst digits_of.simps)
         (simp add: parse_digits_append is_digit_digit_char digit_val_digit_char)
  qed
qed

lemma hd_digits_of_digit: "0 \<le> n \<Longrightarrow> is_digit (hd (digits_of n))"
  using digits_of_all_digits [of n] digits_of_nonempty [of n] by (cases "digits_of n") auto

lemma Atoi_digits_of:
  assumes "0 \<le> n" and "n \<le> 9223372036854775807"
  shows "Atoi (digits_of n) = (n, None)"
proof -
  have h: "is_digit (hd (digits_of n))" using assms(1) by (rule hd_digits_of_digit)
  have m: "hd (digits_of n) \<noteq> CHR ''-''" using h by (auto simp: is_digit_def)
  have p: "hd (digits_of n) \<noteq> CHR ''+''" using h by (auto simp: is_digit_def)
  show ?thesis using assms m p
    by (simp add: Atoi_def Let_def digits_of_nonempty parse_digits_digits_of)
qed

text \<open>
  Claim C9.  For every non-negative price \<open>n\<close> of Go's \<open>int\<close> type, parsing the
  thousands-separated string that \<open>FormatPrice\<close> produces gives back \<open>n\<close> with a
  \<open>nil\<close> error.
\<close>

theorem ParsePrice_FormatPrice:
  assumes "0 \<le> n" and "n \<le> 9223372036854775807"
  shows "ParsePrice (FormatPrice n) = (n, None)"
proof -
  have f: "filter is_digit (FormatPrice n) = digits_of n"
    using assms(1) digits_of_all_digits [of n]
    by (simp add: FormatPrice_def itoa_def Let_def filter_insert_seps filter_id_conv)
  have "Atoi (digits_of n) = (n, None)" using assms by (rule Atoi_digits_of)
  with f show ?thesis
    by (simp add: ParsePrice_def Let_def digits_of_nonempty)
qed

theorem ParsePrice_FormatPrice_witness:
  "(0::int) \<le> 1234567 \<and> (1234567::int) \<le> 9223372036854775807 \<and>
   FormatPrice 1234567 = ''1 234 567'' \<and> ParsePrice ''1 234 567'' = (1234567, None)"
proof -
  have f: "FormatPrice 1234567 = ''1 234 567''" by code_simp
  have "ParsePrice (FormatPrice 1234567) = (1234567, None)"
    using ParsePrice_FormatPrice [of 1234567] by simp
  with f show ?thesis by simp
qed

section \<open>Properties of the broadcast engine\<close>

lemma broadcast_task_sum:
  "\<not> wait_fails \<Longrightarrow>
   successCount (broadcast_task transport wait_fails parsed usrId t)
     + failedCount (broadcast_task transport wait_fails parsed usrId t)
   = successCount t + failedCount t + 1"
  by (cases parsed) (auto simp: broadcast_task_def split: prod.splits option.splits)

lemma broadcast_tasks_sum:
  "\<forall>j < length userIds. \<not> wait_err (i + j) \<Longrightarrow>
   successCount (broadcast_tasks transport wait_err parsed i userIds t)
     + failedCount (broadcast_tasks transport wait_err parsed i userIds t)
   = successCount t + failedCount t + int (length userIds)"
proof (induction userIds arbitrary: i t)
  case Nil
  then show ?case by simp
next
  case (Cons userId rest)
  have now: "\<not> wait_err i" using Cons.prems by force
  have later: "\<forall>j < length rest. \<not> wait_err (Suc i + j)"
  proof (intro allI impI)
    fix j assume "j < length rest"
    then have "Suc j < length (userId # rest)" by simp
    with Cons.prems have "\<not> wait_err (i + Suc j)" by blast
    then show "\<not> wait_err (Suc i + j)" by simp
  qed
  show ?case
    using Cons.IH [OF later] broadcast_task_sum [OF now]
    by simp
qed

text \<open>
  Claim C3.  A broadcast over a non-empty audience of \<open>N\<close> recipients in which no
  rate-limiter wait is cancelled runs to completion, and its final counters satisfy
  \<open>successCount + failedCount = N\<close>.
\<close>

theorem broadcast_counts_every_recipient:
  assumes "userIds \<noteq> []" and "\<not> status_err"
    and "\<forall>i < length userIds. \<not> wait_err i"
  shows "\<exists>t. SendMessage_broadcast transport wait_err status_err (Some userIds) msg = Completed t
           \<and> successCount t + failedCount t = int (length userIds)"
  using assms broadcast_tasks_sum [of userIds wait_err 0 transport "parseMessage msg"]
  by (simp add: SendMessage_broadcast_def Let_def)

lemma parse_text: "parseMessage text_msg = (''text'', [], ''hello'')"
  by (simp add: parseMessage_def text_msg_def empty_msg_def)

lemma parse_location: "parseMessage location_msg = (''location'', [], ''43.238949,76.889709'')"
  by (simp add: parseMessage_def location_msg_def empty_msg_def)

lemma sample_run:
  "SendMessage_broadcast (fails_for 11) no_cancel False (Some [11, 12]) text_msg
   = Completed \<lparr>successCount = 1, failedCount = 1,
        calls = [CallSendMessage 11 ''hello'', CallSendMessage 12 ''hello'']\<rparr>"
  by (simp add: SendMessage_broadcast_def parse_text broadcast_task_def sendToUser_def
        fails_for_def no_cancel_def)

theorem broadcast_counts_every_recipient_witness:
  "successCount (report_tally
        (SendMessage_broadcast (fails_for 11) no_cancel False (Some [11, 12]) text_msg))
     + failedCount (report_tally
        (SendMessage_broadcast (fails_for 11) no_cancel False (Some [11, 12]) text_msg))
     = 2"
proof -
  have c: "\<forall>i < length [11, 12 :: int]. \<not> no_cancel i" by (simp add: no_cancel_def)
  from broadcast_counts_every_recipient [of "[11, 12]" False no_cancel "fails_for 11" text_msg] c
  obtain t where
    "SendMessage_broadcast (fails_for 11) no_cancel False (Some [11, 12]) text_msg = Completed t"
    and "successCount t + failedCount t = 2"
    by auto
  then show ?thesis by simp
qed

lemma sendToUser_unsupported:
  "msgType \<notin> {''text'', ''photo'', ''video'', ''document'', ''video_note'', ''audio''} \<Longrightarrow>
   sendToUser transport chatID msgType fileID caption = (None, [])"
  by (simp add: sendToUser_def)

lemma broadcast_tasks_unsupported:
  "msgType \<notin> {''text'', ''photo'', ''video'', ''document'', ''video_note'', ''audio''} \<Longrightarrow>
   \<forall>j < length userIds. \<not> wait_err (i + j) \<Longrightarrow>
   broadcast_tasks transport wait_err (msgType, fileId, caption) i userIds t
   = t\<lparr>successCount := successCount t + int (length userIds)\<rparr>"
proof (induction userIds arbitrary: i t)
  case Nil
  then show ?case by simp
next
  case (Cons userId rest)
  have now: "\<not> wait_err i" using Cons.prems(2) by force
  have later: "\<forall>j < length rest. \<not> wait_err (Suc i + j)"
  proof (intro allI impI)
    fix j assume "j < length rest"
    then have "Suc j < length (userId # rest)" by simp
    with Cons.prems(2) have "\<not> wait_err (i + Suc j)" by blast
    then show "\<not> wait_err (Suc i + j)" by simp
  qed
  have step: "broadcast_task transport (wait_err i) (msgType, fileId, caption) userId t
              = t\<lparr>successCount := successCount t + 1\<rparr>"
    using now sendToUser_unsupported [OF Cons.prems(1)]
    by (simp add: broadcast_task_def)
  show ?case
    using Cons.IH [OF Cons.prems(1) later] step by simp
qed

text \<open>
  Claim C4, as amended.  For a payload kind that \<open>sendToUser\<close> does not know, the
  per-recipient send makes no call and returns \<open>nil\<close>, which the task counts as a
  success: without cancellation the final counters are \<open>successCount = N\<close> and
  \<open>failedCount = 0\<close>, so their sum is \<open>N\<close> and not less.
\<close>

theorem unsupported_kind_counted_as_success:
  assumes "fst (parseMessage msg)
             \<notin> {''text'', ''photo'', ''video'', ''document'', ''video_note'', ''audio''}"
    and "userIds \<noteq> []" and "\<not> status_err"
    and "\<forall>i < length userIds. \<not> wait_err i"
  shows "SendMessage_broadcast transport wait_err status_err (Some userIds) msg
         = Completed \<lparr>successCount = int (length userIds), failedCount = 0, calls = []\<rparr>"
proof -
  obtain msgType fileId caption where p: "parseMessage msg = (msgType, fileId, caption)"
    by (cases "parseMessage msg") auto
  with assms(1) have k:
    "msgType \<notin> {''text'', ''photo'', ''video'', ''document'', ''video_note'', ''audio''}"
    by simp
  have w: "\<forall>j < length userIds. \<not> wait_err (0 + j)" using assms(4) by simp
  show ?thesis
    using assms(2,3) p broadcast_tasks_unsupported [OF k w]
    by (simp add: SendMessage_broadcast_def)
qed

text \<open>The claim as stated fails for a location message sent to two recipients: both
  are counted as successes.\<close>

theorem unsupported_kind_counterexample:
  "\<not> (successCount (report_tally
          (SendMessage_broadcast all_sent no_cancel False (Some [11, 12]) location_msg))
       + failedCount (report_tally
          (SendMessage_broadcast all_sent no_cancel False (Some [11, 12]) location_msg))
       < int (length [11, 12 :: int]))"
  by (simp add: SendMessage_broadcast_def parse_location broadcast_task_def sendToUser_def
        no_cancel_def)

theorem unsupported_kind_counted_as_success_witness:
  "fst (parseMessage location_msg)
     \<notin> {''text'', ''photo'', ''video'', ''document'', ''video_note'', ''audio''}
   \<and> SendMessage_broadcast all_sent no_cancel False (Some [11, 12]) location_msg
     = Completed \<lparr>successCount = 2, failedCount = 0, calls = []\<rparr>"
proof -
  have k: "fst (parseMessage location_msg)
     \<notin> {''text'', ''photo'', ''video'', ''document'', ''video_note'', ''audio''}"
    by (simp add: parse_location)
  have c: "\<forall>i < length [11, 12 :: int]. \<not> no_cancel i" by (simp add: no_cancel_def)
  have "SendMessage_broadcast all_sent no_cancel False (Some [11, 12]) location_msg
     = Completed \<lparr>successCount = int (length [11, 12 :: int]), failedCount = 0, calls = []\<rparr>"
    using unsupported_kind_counted_as_success [OF k _ _ c, of False all_sent] by simp
  with k show ?thesis by simp
qed

section \<open>Properties of the receipt handlers\<close>

lemma wrap64_id: "- 9223372036854775808 \<le> x \<Longrightarrow> x \<le> 9223372036854775807 \<Longrightarrow> wrap64 x = x"
  by (simp add: wrap64_def)

lemma Intn_range: "0 \<le> Intn 90000000 r \<and> Intn 90000000 r < 90000000"
  by (simp add: Intn_def)

lemma loto_loop_rows:
  "loto_loop e uid qr i k table tickets = (ok, table', tickets') \<Longrightarrow>
   (\<forall>x \<in> set table'. x \<in> set table \<or> (10000000 \<le> LotoID x \<and> LotoID x \<le> 99999999))
   \<and> (\<exists>ts. tickets' = tickets @ ts \<and> (\<forall>t \<in> set ts. 10000000 \<le> t \<and> t \<le> 99999999))"
proof (induction k arbitrary: i table tickets)
  case 0
  then show ?case by simp
next
  case (Suc k)
  show ?case
  proof (cases "insertLoto_err e i")
    case True
    with Suc.prems show ?thesis by simp
  next
    case False
    let ?id = "Intn 90000000 (rand_raw e i) + 10000000"
    let ?x = "\<lparr>loto_UserID = uid, LotoID = ?id, QR = qr\<rparr>"
    have r: "10000000 \<le> ?id \<and> ?id \<le> 99999999"
      using Intn_range [of "rand_raw e i"] by simp
    from False Suc.prems
    have "loto_loop e uid qr (Suc i) k (InsertLoto ?x table) (tickets @ [?id])
          = (ok, table', tickets')"
      by (simp add: Let_def)
    from Suc.IH [OF this] obtain ts where
      rows: "\<forall>x \<in> set table'. x \<in> set (InsertLoto ?x table)
                \<or> (10000000 \<le> LotoID x \<and> LotoID x \<le> 99999999)"
      and t: "tickets' = (tickets @ [?id]) @ ts"
             "\<forall>t \<in> set ts. 10000000 \<le> t \<and> t \<le> 99999999"
      by blast
    have ins: "\<forall>x \<in> set (InsertLoto ?x table). x \<in> set table
                \<or> (10000000 \<le> LotoID x \<and> LotoID x \<le> 99999999)"
      using r by (auto simp: InsertLoto_def)
    have "\<forall>x \<in> set table'. x \<in> set table
                \<or> (10000000 \<le> LotoID x \<and> LotoID x \<le> 99999999)"
      using rows ins by blast
    moreover have "tickets' = tickets @ (?id # ts)" using t(1) by simp
    moreover have "\<forall>t \<in> set (?id # ts). 10000000 \<le> t \<and> t \<le> 99999999"
      using t(2) r by simp
    ultimately show ?thesis by blast
  qed
qed

lemma is_pdf_receipt: "EqualFold (Ext ''receipt.pdf'') ''.pdf''"
  by code_simp

lemma parse_100: "ParsePrice ''100 T'' = (100, None)"
  by code_simp

lemma parse_18900: "ParsePrice ''18 900 T'' = (18900, None)"
  by code_simp

lemma parse_37800: "ParsePrice ''37 800 T'' = (37800, None)"
  by code_simp

lemma JustPaid_same_draw:
  "JustPaid cfg0 (env_ok ''18 900 T'' ''QR'' same_draw) receipt_update world0
   = Returned (world0
       \<lparr>redis := [42 \<mapsto> UserState_lit stateContact 1 True],
        loto := [\<lparr>loto_UserID = 42, LotoID = 10000007, QR = ''QR''\<rparr>],
        sent := [BotSendMessage 42
                   (TxtReceiptAcceptedTickets [10000007, 10000007, 10000007])]\<rparr>)"
  by (simp add: JustPaid_def receipt_update_def buyer_msg_def empty_msg_def is_pdf_receipt
      env_ok_def parse_18900 SaveUserState_def world0_def Validator_def cfg0_def
      wrap64_def go_div_def send_def Let_def eval_nat_numeral Intn_def same_draw_def
      no_insert_failure_def InsertLoto_def maxSliceCap_def)

lemma JustPaid_spread_draw:
  "JustPaid cfg0 (env_ok ''18 900 T'' ''QR'' spread_draw) receipt_update world0
   = Returned (world0
       \<lparr>redis := [42 \<mapsto> UserState_lit stateContact 1 True],
        loto := [\<lparr>loto_UserID = 42, LotoID = 99999999, QR = ''QR''\<rparr>,
                 \<lparr>loto_UserID = 42, LotoID = 99999998, QR = ''QR''\<rparr>,
                 \<lparr>loto_UserID = 42, LotoID = 99999997, QR = ''QR''\<rparr>],
        sent := [BotSendMessage 42
                   (TxtReceiptAcceptedTickets [99999999, 99999998, 99999997])]\<rparr>)"
  by (simp add: JustPaid_def receipt_update_def buyer_msg_def empty_msg_def is_pdf_receipt
      env_ok_def parse_18900 SaveUserState_def world0_def Validator_def cfg0_def
      wrap64_def go_div_def send_def Let_def eval_nat_numeral Intn_def spread_draw_def
      no_insert_failure_def InsertLoto_def maxSliceCap_def)

text \<open>
  Claim C10.  Whatever \<open>JustPaid\<close> does, every row of \<open>loto\<close> that was not in the table
  before carries a ticket number between 10000000 and 99999999, and so does every
  number of a ticket list that \<open>JustPaid\<close> sends.
\<close>

theorem JustPaid_ticket_range:
  "(\<forall>x \<in> set (loto (world_of (JustPaid cfg e u w))).
      x \<in> set (loto w) \<or> (10000000 \<le> LotoID x \<and> LotoID x \<le> 99999999))
   \<and> (\<exists>new. sent (world_of (JustPaid cfg e u w)) = sent w @ new
         \<and> (\<forall>chat ts. BotSendMessage chat (TxtReceiptAcceptedTickets ts) \<in> set new \<longrightarrow>
               (\<forall>t \<in> set ts. 10000000 \<le> t \<and> t \<le> 99999999)))"
proof -
  let ?P = "\<lambda>w'. (\<forall>x \<in> set (loto w').
      x \<in> set (loto w) \<or> (10000000 \<le> LotoID x \<and> LotoID x \<le> 99999999))
   \<and> (\<exists>new. sent w' = sent w @ new
         \<and> (\<forall>chat ts. BotSendMessage chat (TxtReceiptAcceptedTickets ts) \<in> set new \<longrightarrow>
               (\<forall>t \<in> set ts. 10000000 \<le> t \<and> t \<le> 99999999)))"
  have same: "?P w" by simp
  have only_pdf: "\<And>chat. ?P (send (BotSendMessage chat TxtOnlyPdf) w)"
    by (simp add: send_def)
  have saved: "\<And>uid st. ?P (w\<lparr>redis := (redis w)(uid \<mapsto> st)\<rparr>)" by simp
  have loop: "\<And>uid st qr k ok table tickets chat.
      loto_loop e uid qr 0 k (loto w) [] = (ok, table, tickets) \<Longrightarrow>
      ?P (w\<lparr>redis := (redis w)(uid \<mapsto> st), loto := table\<rparr>)
      \<and> ?P (send (BotSendMessage chat (TxtReceiptAcceptedTickets tickets))
               (w\<lparr>redis := (redis w)(uid \<mapsto> st), loto := table\<rparr>))"
  proof -
    fix uid st qr k ok table tickets chat
    assume "loto_loop e uid qr 0 k (loto w) [] = (ok, table, tickets)"
    from loto_loop_rows [OF this]
    have rows: "\<forall>x \<in> set table. x \<in> set (loto w)
                  \<or> (10000000 \<le> LotoID x \<and> LotoID x \<le> 99999999)"
      and tk: "\<forall>t \<in> set tickets. 10000000 \<le> t \<and> t \<le> 99999999"
      by auto
    show "?P (w\<lparr>redis := (redis w)(uid \<mapsto> st), loto := table\<rparr>)
      \<and> ?P (send (BotSendMessage chat (TxtReceiptAcceptedTickets tickets))
               (w\<lparr>redis := (redis w)(uid \<mapsto> st), loto := table\<rparr>))"
      using rows tk by (simp add: send_def)
  qed
  have "?P (world_of (JustPaid cfg e u w))"
    unfolding JustPaid_def Let_def SaveUserState_def
    using same only_pdf saved loop
    by (simp split: option.split prod.split bool.split)
  then show ?thesis .
qed

theorem JustPaid_ticket_range_witness:
  "length (loto (world_of (JustPaid cfg0 (env_ok ''18 900 T'' ''QR'' spread_draw)
                             receipt_update world0))) = 3
   \<and> 10000000 \<le> LotoID (loto (world_of (JustPaid cfg0 (env_ok ''18 900 T'' ''QR'' spread_draw)
                             receipt_update world0)) ! 2)
   \<and> LotoID (loto (world_of (JustPaid cfg0 (env_ok ''18 900 T'' ''QR'' spread_draw)
                             receipt_update world0)) ! 0) \<le> 99999999"
proof -
  let ?W = "world_of (JustPaid cfg0 (env_ok ''18 900 T'' ''QR'' spread_draw)
                         receipt_update world0)"
  from JustPaid_ticket_range [of cfg0 "env_ok ''18 900 T'' ''QR'' spread_draw"
         receipt_update world0]
  have n: "\<forall>x \<in> set (loto ?W). x \<in> set (loto world0)
             \<or> (10000000 \<le> LotoID x \<and> LotoID x \<le> 99999999)"
    by blast
  have old: "set (loto world0) = {}" by (simp add: world0_def)
  have l: "length (loto ?W) = 3" by (simp add: JustPaid_spread_draw)
  then have m2: "loto ?W ! 2 \<in> set (loto ?W)" and m0: "loto ?W ! 0 \<in> set (loto ?W)"
    by simp_all
  from bspec [OF n m2] old have r2: "10000000 \<le> LotoID (loto ?W ! 2)" by simp
  from bspec [OF n m0] old have r0: "LotoID (loto ?W ! 0) \<le> 99999999" by simp
  from l r2 r0 show ?thesis by simp
qed

lemma Validator_accepts_37800:
  "Validator cfg0 \<lparr>Total = 2, ActualPrice = 37800, Bin = cfg_Bin cfg0, Qr = ''37 800 T''\<rparr>
   = None"
  by (simp add: Validator_def cfg0_def wrap64_def)

lemma DefaultHandler_to_PaidHandler_valid:
  "DefaultHandler cfg0 (env_ok ''x'' ''37 800 T'' same_draw) no_admin no_admin receipt_update
     (world_in (UserState_lit statePaid 2 False))
   = PaidHandler cfg0 (env_ok ''x'' ''37 800 T'' same_draw) receipt_update
       (world_in (UserState_lit statePaid 2 False))"
  by (simp add: DefaultHandler_def receipt_update_def buyer_msg_def empty_msg_def
      register_user_def admin_echo_def cfg0_def world_in_def world0_def env_ok_def
      getOrCreateUserState_def GetUserState_def UserState_lit_def phase_switch_def
      stateStart_def stateCount_def statePaid_def stateContact_def)

text \<open>
  Claim C2 fails on the code.  A user in phase \<open>paid\<close> with quantity 2 uploads a PDF
  whose amount line reads 37 800, the price of two units: \<open>Validator\<close> accepts it, and
  \<open>PaidHandler\<close>, reached through \<open>DefaultHandler\<close>, stores \<open>IsPaid\<close> true with phase
  \<open>contact\<close> and sends the acceptance text, but writes no row to \<open>loto\<close> where the claim
  asks for six.
\<close>

theorem PaidHandler_accepted_receipt_no_tickets:
  "Validator cfg0 \<lparr>Total = 2, ActualPrice = 37800, Bin = cfg_Bin cfg0, Qr = ''37 800 T''\<rparr>
     = None
   \<and> DefaultHandler cfg0 (env_ok ''x'' ''37 800 T'' same_draw) no_admin no_admin receipt_update
       (world_in (UserState_lit statePaid 2 False))
     = Returned ((world_in (UserState_lit stateContact 2 True))
         \<lparr>sent := [BotSendMessage 42 TxtReceiptAccepted]\<rparr>)
   \<and> loto (world_of (DefaultHandler cfg0 (env_ok ''x'' ''37 800 T'' same_draw) no_admin no_admin
              receipt_update (world_in (UserState_lit statePaid 2 False)))) = []"
  unfolding DefaultHandler_to_PaidHandler_valid
  by (simp add: PaidHandler_def receipt_update_def buyer_msg_def empty_msg_def is_pdf_receipt
      env_ok_def parse_37800 GetUserState_def SaveUserState_def world_in_def world0_def
      UserState_lit_def Validator_def cfg0_def wrap64_def send_def Let_def)

text \<open>On the sibling path, \<open>JustPaid\<close>, three equal draws for one unit leave one row
  in \<open>loto\<close>, each insert replacing the row before it, while the ticket list sent to
  the user names three tickets.\<close>

lemma JustPaid_repeated_draw_one_row:
  "length (loto (world_of (JustPaid cfg0 (env_ok ''18 900 T'' ''QR'' same_draw)
                             receipt_update world0))) = 1
   \<and> sent (world_of (JustPaid cfg0 (env_ok ''18 900 T'' ''QR'' same_draw)
                        receipt_update world0))
     = [BotSendMessage 42 (TxtReceiptAcceptedTickets [10000007, 10000007, 10000007])]"
  by (simp add: JustPaid_same_draw)

lemma Validator_rejects_100:
  "Validator cfg0 \<lparr>Total = 2, ActualPrice = 100, Bin = cfg_Bin cfg0, Qr = ''100 T''\<rparr>
   = Some ErrPriceNotCorrect"
  by (simp add: Validator_def cfg0_def wrap64_def)

lemma DefaultHandler_to_PaidHandler:
  "DefaultHandler cfg0 (env_ok ''x'' ''100 T'' same_draw) no_admin no_admin receipt_update
     (world_in (UserState_lit statePaid 2 False))
   = PaidHandler cfg0 (env_ok ''x'' ''100 T'' same_draw) receipt_update
       (world_in (UserState_lit statePaid 2 False))"
  by (simp add: DefaultHandler_def receipt_update_def buyer_msg_def empty_msg_def
      register_user_def admin_echo_def cfg0_def world_in_def world0_def env_ok_def
      getOrCreateUserState_def GetUserState_def UserState_lit_def phase_switch_def
      stateStart_def stateCount_def statePaid_def stateContact_def)

text \<open>
  Claim C1 fails on \<open>PaidHandler\<close>.  A user in phase \<open>paid\<close> with quantity 2 uploads a
  PDF whose amount line reads 100: \<open>Validator\<close> rejects it, the retry text is sent, and
  the handler, reached through \<open>DefaultHandler\<close>, goes on to store \<open>IsPaid\<close> true with
  phase \<open>contact\<close> and to send the acceptance text.
\<close>

theorem PaidHandler_rejected_receipt_marks_paid:
  "Validator cfg0 \<lparr>Total = 2, ActualPrice = 100, Bin = cfg_Bin cfg0, Qr = ''100 T''\<rparr>
     = Some ErrPriceNotCorrect
   \<and> PaidHandler cfg0 (env_ok ''x'' ''100 T'' same_draw) receipt_update
       (world_in (UserState_lit statePaid 2 False))
     = Returned ((world_in (UserState_lit stateContact 2 True))
         \<lparr>sent := [BotSendMessage 42 TxtInvalidPdfRetry,
                   BotSendMessage 42 TxtReceiptAccepted]\<rparr>)
   \<and> DefaultHandler cfg0 (env_ok ''x'' ''100 T'' same_draw) no_admin no_admin receipt_update
       (world_in (UserState_lit statePaid 2 False))
     = Returned ((world_in (UserState_lit stateContact 2 True))
         \<lparr>sent := [BotSendMessage 42 TxtInvalidPdfRetry,
                   BotSendMessage 42 TxtReceiptAccepted]\<rparr>)"
  unfolding DefaultHandler_to_PaidHandler
  by (simp add: PaidHandler_def receipt_update_def buyer_msg_def empty_msg_def is_pdf_receipt
      env_ok_def parse_100 GetUserState_def SaveUserState_def world_in_def world0_def
      UserState_lit_def Validator_def cfg0_def wrap64_def send_def Let_def)

section \<open>Quantity selection\<close>

lemma Split_no_sep: "sep \<notin> set s \<Longrightarrow> Split s sep = [s]"
  by (induction s) auto

lemma underscore_not_digit: "\<not> is_digit CHR ''_''"
  by (simp add: is_digit_def)

lemma Split_count_data:
  assumes "0 \<le> n"
  shows "Split (''count_'' @ digits_of n) CHR ''_'' = [''count'', digits_of n]"
proof -
  have "CHR ''_'' \<notin> set (digits_of n)"
    using digits_of_all_digits [OF assms] underscore_not_digit by blast
  then show ?thesis by (simp add: Split_no_sep)
qed

lemma menu_has_button:
  assumes "1 \<le> n" and "n \<le> 30"
  shows "(itoa n, ''count_'' @ itoa n) \<in> set (concat count_menu)"
proof -
  let ?i = "(n - 1) div 5" and ?j = "(n - 1) mod 5"
  have i: "?i \<in> set [0..5]" using assms by auto
  have j: "?j \<in> set [0..4]" by auto
  have n: "?i * 5 + ?j + 1 = n" by simp
  let ?row = "\<lambda>i. map (\<lambda>j. let num = i * 5 + j + 1 in (itoa num, ''count_'' @ itoa num)) [0..4]"
  have "(itoa n, ''count_'' @ itoa n) \<in> set (?row ?i)"
    using j n by (auto simp: Let_def image_iff intro!: bexI [of _ ?j])
  moreover have "?row ?i \<in> set count_menu"
    unfolding count_menu_def using i by (simp only: set_map) (rule imageI)
  ultimately show ?thesis unfolding set_concat by blast
qed

text \<open>
  Claim C7.  For every quantity \<open>n\<close> from 1 to 30 the menu has the button whose callback
  data is \<open>count_n\<close>, and on that button \<open>CountHandler\<close> stores the quantity \<open>n\<close> with
  phase \<open>paid\<close> and sends payment instructions showing exactly \<open>n \<times> Cost\<close>, the product
  being one that Go's \<open>int\<close> holds.
\<close>

theorem CountHandler_total_price:
  assumes "1 \<le> n" and "n \<le> 30"
    and "Callback u = Some cq" and "Data cq = ''count_'' @ itoa n"
    and "- 9223372036854775808 \<le> n * Cost cfg" and "n * Cost cfg \<le> 9223372036854775807"
  shows "(itoa n, Data cq) \<in> set (concat count_menu)
         \<and> CountHandler cfg e u w
           = Returned (send (BotSendMessage (cq_From_ID cq) (TxtPayInstructions (n * Cost cfg)))
               (fst (SaveUserState (save_err e) (cq_From_ID cq) (UserState_lit statePaid n False)
                       (send (BotAnswerCallbackQuery (cq_ID cq) None) w))))"
proof -
  have n0: "0 \<le> n" using assms(1) by simp
  have it: "itoa n = digits_of n" using n0 by (simp add: itoa_def)
  have pre: "HasPrefix (Data cq) ''count_''" by (simp add: HasPrefix_def assms(4))
  have sp: "Split (Data cq) CHR ''_'' = [''count'', digits_of n]"
    using Split_count_data [OF n0] by (simp add: assms(4) it)
  have at: "Atoi (digits_of n) = (n, None)"
    using n0 assms(2) by (intro Atoi_digits_of) simp_all
  have wr: "wrap64 (n * Cost cfg) = n * Cost cfg"
    using assms(5,6) by (rule wrap64_id)
  have "CountHandler cfg e u w
           = Returned (send (BotSendMessage (cq_From_ID cq) (TxtPayInstructions (n * Cost cfg)))
               (fst (SaveUserState (save_err e) (cq_From_ID cq) (UserState_lit statePaid n False)
                       (send (BotAnswerCallbackQuery (cq_ID cq) None) w))))"
    by (simp add: CountHandler_def assms(3) pre sp at wr Let_def)
  moreover have "(itoa n, Data cq) \<in> set (concat count_menu)"
    using menu_has_button [OF assms(1,2)] by (simp add: assms(4))
  ultimately show ?thesis by simp
qed

lemma itoa_30: "itoa 30 = ''30''"
  by code_simp

theorem CountHandler_total_price_witness:
  "(''30'', ''count_30'') \<in> set (concat count_menu)
   \<and> CountHandler cfg0 (env_ok ''x'' ''y'' same_draw) (button_update ''count_30'') world0
     = Returned (world0
         \<lparr>redis := [42 \<mapsto> UserState_lit statePaid 30 False],
          sent := [BotAnswerCallbackQuery ''q1'' None,
                   BotSendMessage 42 (TxtPayInstructions 567000)]\<rparr>)"
proof -
  let ?cq = "\<lparr>cq_ID = ''q1'', cq_From_ID = 42, Data = ''count_30''\<rparr>"
  from CountHandler_total_price [of 30 "button_update ''count_30''" ?cq cfg0
         "env_ok ''x'' ''y'' same_draw" world0]
  show ?thesis
    by (simp add: button_update_def itoa_30 cfg0_def env_ok_def SaveUserState_def send_def
        world0_def)
qed

section \<open>Properties of the phase dispatch\<close>

lemma register_user_fields:
  "redis (register_user e uid w) = redis w"
  "loto (register_user e uid w) = loto w"
  "client (register_user e uid w) = client w"
  "sent (register_user e uid w) = sent w"
  by (simp_all add: register_user_def)

lemma admin_echo_fields:
  "redis (admin_echo cfg m w) = redis w"
  "loto (admin_echo cfg m w) = loto w"
  "client (admin_echo cfg m w) = client w"
  "just (admin_echo cfg m w) = just w"
  by (simp_all add: admin_echo_def send_def Let_def)

lemma state_names_distinct:
  "stateStart \<noteq> stateCount" "stateStart \<noteq> statePaid" "stateStart \<noteq> stateContact"
  "stateCount \<noteq> statePaid" "stateCount \<noteq> stateContact" "statePaid \<noteq> stateContact"
  "stateCount \<noteq> stateStart" "statePaid \<noteq> stateStart" "stateContact \<noteq> stateStart"
  "statePaid \<noteq> stateCount" "stateContact \<noteq> stateCount" "stateContact \<noteq> statePaid"
  by (simp_all add: stateStart_def stateCount_def statePaid_def stateContact_def)

lemma getOrCreateUserState_present:
  "\<not> goc_get_err e \<Longrightarrow> redis w uid = Some st \<Longrightarrow> getOrCreateUserState e uid w = (st, w)"
  by (simp add: getOrCreateUserState_def GetUserState_def)









lemma PaidHandler_keeps_Count:
  assumes "redis w uid = Some st" and "Msg u = Some m" and "From_ID m = uid"
    and "redis (world_of (PaidHandler cfg e u w)) uid = Some st'"
  shows "Count st' = Count st"
  using assms
  by (auto simp: PaidHandler_def Let_def GetUserState_def SaveUserState_def send_def
      split: option.splits prod.splits if_splits)

lemma ShareContact_keeps_Count:
  assumes "redis w uid = Some st" and "Msg u = Some m" and "From_ID m = uid"
    and "\<not> get_err e"
    and "redis (world_of (ShareContactCallbackHandler e u w)) uid = Some st'"
  shows "Count st' = Count st"
  using assms
  by (auto simp: ShareContactCallbackHandler_def Let_def GetUserState_def SaveUserState_def
      DeleteUserState_def send_def split: option.splits if_splits)

text \<open>
  Claim C6, as amended.  For a user stored in phase \<open>paid\<close> or \<open>contact\<close>, a message
  handled by \<open>DefaultHandler\<close> while the reads of the State Store succeed leaves the
  user either without a state or with a state of the same quantity.
\<close>

theorem phase_handlers_keep_quantity:
  assumes "Msg u = Some m" and "\<not> goc_get_err e" and "\<not> get_err e"
    and "redis w (From_ID m) = Some st"
    and "State st = statePaid \<or> State st = stateContact"
  shows "\<forall>st'. redis (world_of (DefaultHandler cfg e AdminHandler SendMessage u w)) (From_ID m)
                 = Some st' \<longrightarrow> Count st' = Count st"
proof (intro allI impI)
  fix st'
  assume a: "redis (world_of (DefaultHandler cfg e AdminHandler SendMessage u w)) (From_ID m)
               = Some st'"
  let ?w2 = "admin_echo cfg m (register_user e (From_ID m) w)"
  have r: "redis ?w2 (From_ID m) = Some st"
    using assms(4) by (simp add: admin_echo_fields register_user_fields)
  have g: "getOrCreateUserState e (From_ID m) ?w2 = (st, ?w2)"
    using assms(2) r by (rule getOrCreateUserState_present)
  from assms(5) show "Count st' = Count st"
  proof
    assume p: "State st = statePaid"
    have "DefaultHandler cfg e AdminHandler SendMessage u w = PaidHandler cfg e u ?w2"
      using assms(1) g p
      by (simp add: DefaultHandler_def Let_def phase_switch_def state_names_distinct)
    with a have "redis (world_of (PaidHandler cfg e u ?w2)) (From_ID m) = Some st'" by simp
    with r assms(1) show ?thesis by (intro PaidHandler_keeps_Count [where uid = "From_ID m"]) auto
  next
    assume c: "State st = stateContact"
    have "DefaultHandler cfg e AdminHandler SendMessage u w
          = ShareContactCallbackHandler e u ?w2"
      using assms(1) g c
      by (simp add: DefaultHandler_def Let_def phase_switch_def state_names_distinct)
    with a have "redis (world_of (ShareContactCallbackHandler e u ?w2)) (From_ID m) = Some st'"
      by simp
    with r assms(1,3) show ?thesis
      by (intro ShareContact_keeps_Count [where uid = "From_ID m"]) auto
  qed
qed

text \<open>The claim as stated fails for a quantity button pressed in phase \<open>paid\<close>:
  \<open>CountHandler\<close>, which \<open>main\<close> registers for every callback whose data starts with
  \<open>count_\<close>, does not look at the phase and stores the new quantity.\<close>

theorem quantity_overwritten_counterexample:
  "map_option Count (redis (world_in (UserState_lit statePaid 2 False)) 42) = Some 2
   \<and> map_option Count
       (redis (world_of (CountHandler cfg0 (env_ok ''x'' ''y'' same_draw)
                           (button_update ''count_5'')
                           (world_in (UserState_lit statePaid 2 False)))) 42) = Some 5"
proof -
  have s: "Split ''count_5'' CHR ''_'' = [''count'', ''5'']" by simp
  have a: "Atoi ''5'' = (5, None)" by code_simp
  show ?thesis
    by (simp add: CountHandler_def button_update_def HasPrefix_def s a Let_def
        SaveUserState_def send_def env_ok_def world_in_def world0_def UserState_lit_def)
qed

lemma DefaultHandler_paid_receipt:
  "redis (world_of (DefaultHandler cfg0 (env_ok ''x'' ''37 800 T'' same_draw) no_admin no_admin
       receipt_update (world_in (UserState_lit statePaid 2 False)))) 42
   = Some (UserState_lit stateContact 2 True)"
  by (simp add: DefaultHandler_def receipt_update_def buyer_msg_def empty_msg_def
      register_user_def admin_echo_def cfg0_def world_in_def world0_def env_ok_def
      getOrCreateUserState_def GetUserState_def UserState_lit_def state_names_distinct
      phase_switch_def PaidHandler_def is_pdf_receipt parse_37800 SaveUserState_def
      Validator_def wrap64_def send_def Let_def)

theorem phase_handlers_keep_quantity_witness:
  "redis (world_of (DefaultHandler cfg0 (env_ok ''x'' ''37 800 T'' same_draw) no_admin no_admin
       receipt_update (world_in (UserState_lit statePaid 2 False)))) 42
   = Some (UserState_lit stateContact 2 True)
   \<and> Count (UserState_lit stateContact 2 True) = Count (UserState_lit statePaid 2 False)"
proof -
  let ?m = "buyer_msg\<lparr>Doc := Some \<lparr>FileName = ''receipt.pdf'', FileID = ''f1''\<rparr>\<rparr>"
  let ?e = "env_ok ''x'' ''37 800 T'' same_draw"
  have id: "From_ID ?m = 42" by (simp add: buyer_msg_def empty_msg_def)
  have "\<forall>st'. redis (world_of (DefaultHandler cfg0 ?e no_admin no_admin receipt_update
                   (world_in (UserState_lit statePaid 2 False)))) (From_ID ?m) = Some st'
          \<longrightarrow> Count st' = Count (UserState_lit statePaid 2 False)"
    by (rule phase_handlers_keep_quantity [of receipt_update ?m ?e
          "world_in (UserState_lit statePaid 2 False)" "UserState_lit statePaid 2 False"])
       (simp_all add: receipt_update_def env_ok_def world_in_def world0_def id
          UserState_lit_def)
  with DefaultHandler_paid_receipt id show ?thesis by simp
qed

end
